theory Spec2Isabelle
  imports Complex_Main "HOL-Library.Sublist" "HOL-Library.Multiset"
begin

section \<open>Python values shared by the scrapers\<close>

text \<open>
  Exceptions are values. Every constructor is an instance of Python's \<open>Exception\<close>
  class, which is what the scrapers' calls (requests, bs4, the builtins) raise; the
  string is the text that \<open>str(e)\<close> gives. \<open>HTTPError\<close> also carries the text of
  \<open>e.response.status_code\<close>.
\<close>

datatype exn =
    TypeError string
  | AttributeError string
  | KeyError string
  | ValueError string
  | ZeroDivisionError string
  | HTTPError string string
  | Timeout string
  | OtherException string

fun str_exn :: "exn \<Rightarrow> string" where
  "str_exn (TypeError m) = m"
| "str_exn (AttributeError m) = m"
| "str_exn (KeyError m) = m"
| "str_exn (ValueError m) = m"
| "str_exn (ZeroDivisionError m) = m"
| "str_exn (HTTPError code m) = m"
| "str_exn (Timeout m) = m"
| "str_exn (OtherException m) = m"

fun is_ValueError :: "exn \<Rightarrow> bool" where
  "is_ValueError (ValueError m) = True"
| "is_ValueError e = False"

text \<open>
  A Python float is modelled by the rational number it stands for: a price is an exact
  decimal. Rounding to binary64, overflow to \<open>inf\<close>, and \<open>nan\<close> are outside the model.
  Truthiness of an optional float, as in \<open>if price:\<close> and \<open>if product.get('price'):\<close>:
  \<open>None\<close> and \<open>0.0\<close> are falsy.
\<close>

fun truthy :: "rat option \<Rightarrow> bool" where
  "truthy None = False"
| "truthy (Some p) = (p \<noteq> 0)"

section \<open>Price text parsing\<close>

definition is_digit :: "char \<Rightarrow> bool" where
  "is_digit c = (c \<in> set ''0123456789'')"

definition is_digit_or_comma :: "char \<Rightarrow> bool" where
  "is_digit_or_comma c = (is_digit c \<or> c = CHR '','')"

text \<open>
  \<open>re.search(r'\$?([\d,]+\.?\d*)', price_text)\<close> of amazon_scraper, jcpenney_scraper
  and macys_scraper. \<open>match_group\<close> matches the group \<open>([\d,]+\.?\d*)\<close> at the head of
  the text (every quantifier is greedy and nothing follows the group, so no backtracking
  shortens it); \<open>match_at\<close> matches the whole pattern at the head of the text, the
  optional \<open>\$\<close> first taken and then given back when the group fails behind it;
  \<open>re_search\<close> tries the positions from left to right and gives \<open>match.group(1)\<close> of the
  first match. Characters are 8-bit code points, where \<open>\d\<close> is \<open>0\<close> to \<open>9\<close>.
\<close>

definition match_group :: "string \<Rightarrow> string option" where
  "match_group s =
     (let whole = takeWhile is_digit_or_comma s; r = dropWhile is_digit_or_comma s
      in if whole = [] then None
         else (case r of
                 c # r' \<Rightarrow> if c = CHR ''.'' then Some (whole @ [c] @ takeWhile is_digit r')
                           else Some whole
               | [] \<Rightarrow> Some whole))"

definition match_at :: "string \<Rightarrow> string option" where
  "match_at s =
     (case s of
        c # cs \<Rightarrow>
          if c = CHR ''$''
          then (case match_group cs of Some g \<Rightarrow> Some g | None \<Rightarrow> match_group s)
          else match_group s
      | [] \<Rightarrow> match_group s)"

fun re_search :: "string \<Rightarrow> string option" where
  "re_search [] = match_at []"
| "re_search (c # cs) =
     (case match_at (c # cs) of Some g \<Rightarrow> Some g | None \<Rightarrow> re_search cs)"

text \<open>\<open>text.replace(old, '')\<close> for a one-character \<open>old\<close>.\<close>

definition remove_char :: "char \<Rightarrow> string \<Rightarrow> string" where
  "remove_char old s = filter (\<lambda>c. c \<noteq> old) s"

text \<open>
  \<open>extract_price\<close> of amazon_scraper, jcpenney_scraper and macys_scraper (the three
  bodies are the same text). The builtin \<open>float\<close> is the parameter \<open>to_float\<close>: it returns
  the number or raises. \<open>except ValueError\<close> catches that class only, so any other
  exception of \<open>to_float\<close> would leave the function.
\<close>

definition extract_price :: "(string \<Rightarrow> exn + rat) \<Rightarrow> string \<Rightarrow> exn + rat option" where
  "extract_price to_float price_text =
     (if price_text = [] then Inr None
      else (case re_search price_text of
              Some g \<Rightarrow>
                (case to_float (remove_char (CHR '','') g) of
                   Inr v \<Rightarrow> Inr (Some v)
                 | Inl e \<Rightarrow> if is_ValueError e then Inr None else Inl e)
            | None \<Rightarrow> Inr None))"

text \<open>
  \<open>str.strip()\<close>: the whitespace of a Python string among the 8-bit code points
  (tab to carriage return, the four separators 28 to 31, space, NEL and no-break space).
\<close>

definition is_space :: "char \<Rightarrow> bool" where
  "is_space c = ((of_char c :: nat) \<in> set [9, 10, 11, 12, 13, 28, 29, 30, 31, 32, 133, 160])"

definition strip :: "string \<Rightarrow> string" where
  "strip s = rev (dropWhile is_space (rev (dropWhile is_space s)))"

text \<open>
  \<open>extract_price\<close> of Dockers_scraper, multi_scraper and scraper:
  \<open>cleaned = price_text.strip().replace('$', '').replace(',', '')\<close>, then
  \<open>float(cleaned)\<close> under \<open>except (ValueError, AttributeError)\<close>. On a string the
  three string methods do not raise.
\<close>

fun is_ValueError_or_AttributeError :: "exn \<Rightarrow> bool" where
  "is_ValueError_or_AttributeError (ValueError m) = True"
| "is_ValueError_or_AttributeError (AttributeError m) = True"
| "is_ValueError_or_AttributeError e = False"

definition dockers_extract_price :: "(string \<Rightarrow> exn + rat) \<Rightarrow> string \<Rightarrow> exn + rat option" where
  "dockers_extract_price to_float price_text =
     (let cleaned = remove_char (CHR '','') (remove_char (CHR ''$'') (strip price_text))
      in (case to_float cleaned of
            Inr v \<Rightarrow> Inr (Some v)
          | Inl e \<Rightarrow> if is_ValueError_or_AttributeError e then Inr None else Inl e))"

text \<open>
  \<open>float\<close> on the texts the pattern of \<open>extract_price\<close> lets through: digits with at
  most one point. Python accepts such a text when it holds a digit and raises ValueError
  otherwise; the value is the decimal number written. (The signs, exponents, underscores
  and names such as \<open>inf\<close>, which \<open>float\<close> also reads, cannot come out of the pattern;
  \<open>py_float\<close> answers ValueError on them and is used on the pattern's texts only.)
\<close>

definition digit_val :: "char \<Rightarrow> nat" where
  "digit_val c = (if is_digit c then of_char c - 48 else 0)"

definition digits_val :: "string \<Rightarrow> nat" where
  "digits_val ds = foldl (\<lambda>n c. 10 * n + digit_val c) 0 ds"

definition py_float :: "string \<Rightarrow> exn + rat" where
  "py_float t =
     (let ip = takeWhile is_digit t; r = dropWhile is_digit t;
          fp = (case r of c # r' \<Rightarrow> if c = CHR ''.'' then r' else r | [] \<Rightarrow> r)
      in if (ip = [] \<and> fp = []) \<or> \<not> list_all is_digit fp
         then Inl (ValueError (''could not convert string to float: '' @ t))
         else Inr (of_nat (digits_val ip) + of_nat (digits_val fp) / 10 ^ length fp))"

section \<open>Product records\<close>

text \<open>
  The dictionary that \<open>scrape_amazon_product\<close>, \<open>scrape_jcpenney_product\<close> and
  \<open>scrape_macys_product\<close> build has seven fixed keys. Any value may be Python's
  \<open>None\<close>, so every field is an option; the floats come from \<open>extract_price\<close>.
\<close>

record product =
  retailer :: "string option"
  name :: "string option"
  price :: "rat option"
  original_price :: "rat option"
  availability :: "string option"
  url :: "string option"
  error :: "string option"

text \<open>
  The dictionary \<open>product_data\<close> of Dockers_scraper (and of multi_scraper and scraper)
  has other keys: it has no \<open>retailer\<close> and no \<open>price\<close> key.
\<close>

record dockers_product =
  dk_name :: string
  dk_subtitle :: "string option"
  current_price :: "rat option"
  dk_original_price :: "rat option"
  discount_percentage :: "rat option"
  dk_url :: string
  dk_availability :: string
  is_on_sale :: bool

text \<open>
  What a per-retailer list of \<open>MasterScraper.results\<close> can hold: \<open>scrape_product\<close> is
  declared to return \<open>Optional[Dict]\<close>, the search functions return lists of the
  seven-key dictionaries.
\<close>

datatype pyobj = PyNone | RetailDict product | DockersDict dockers_product

section \<open>Discount of a Dockers product\<close>





section \<open>The retailers' pages\<close>

text \<open>
  A parsed page is what the selectors find in it: \<open>select_text pg sel\<close> is
  \<open>soup.select_one(sel)\<close> followed by \<open>get_text(strip=True)\<close>, \<open>None\<close> when no tag
  matches; \<open>search_results\<close> are Amazon's result containers in document order;
  \<open>links_testid\<close> and \<open>links_class\<close> are the \<open>href\<close> attributes (\<open>link.get('href')\<close>) of
  the anchors found by \<open>find_all('a', {'data-testid': 'productCardLink'})\<close> and by
  \<open>find_all('a', class_='productCardLink')\<close>.
\<close>

datatype container = NoH2 | H2NoLink | H2Link "string option"

record page =
  select_text :: "string \<Rightarrow> string option"
  search_results :: "container list"
  links_testid :: "string option list"
  links_class :: "string option list"

text \<open>
  A retailer's site answers a search term and a product URL with a parsed page or with
  the exception that \<open>requests.get\<close>, \<open>raise_for_status\<close> or the parser raised.
\<close>

record site =
  search_page :: "string \<Rightarrow> exn + page"
  product_page :: "string \<Rightarrow> exn + page"

text \<open>The name loop: the last text found, stopping at the first one longer than 5.\<close>

fun name_loop :: "page \<Rightarrow> string list \<Rightarrow> string option \<Rightarrow> string option" where
  "name_loop pg [] nm = nm"
| "name_loop pg (selector # rest) nm =
     (case select_text pg selector of
        None \<Rightarrow> name_loop pg rest nm
      | Some t \<Rightarrow> if t \<noteq> [] \<and> 5 < length t then Some t else name_loop pg rest (Some t))"

definition or_unknown :: "string option \<Rightarrow> string" where
  "or_unknown nm = (case nm of None \<Rightarrow> ''Unknown'' | Some t \<Rightarrow> if t = [] then ''Unknown'' else t)"

text \<open>
  The price loops: \<open>price = extract_price(price_text)\<close> for each selector that finds a
  tag, \<open>break\<close> at the first truthy price. A price of \<open>0.0\<close> does not break, and stays
  when no later selector finds a tag.
\<close>

fun price_loop :: "page \<Rightarrow> string list \<Rightarrow> rat option \<Rightarrow> exn + rat option" where
  "price_loop pg [] p = Inr p"
| "price_loop pg (selector # rest) p =
     (case select_text pg selector of
        None \<Rightarrow> price_loop pg rest p
      | Some price_text \<Rightarrow>
          (case extract_price py_float price_text of
             Inl e \<Rightarrow> Inl e
           | Inr p' \<Rightarrow> if truthy p' then Inr p' else price_loop pg rest p'))"

text \<open>\<open>str.lower()\<close> on the ASCII letters, and the substring test \<open>sub in text\<close>.\<close>

definition lower_char :: "char \<Rightarrow> char" where
  "lower_char c =
     (let n = (of_char c :: nat) in if 65 \<le> n \<and> n \<le> 90 then char_of (n + 32) else c)"

definition lower :: "string \<Rightarrow> string" where
  "lower s = map lower_char s"

fun contains :: "string \<Rightarrow> string \<Rightarrow> bool" where
  "contains sub [] = (sub = [])"
| "contains sub (c # cs) = (prefix sub (c # cs) \<or> contains sub cs)"

definition classify :: "string \<Rightarrow> string \<Rightarrow> string" where
  "classify other avail_text =
     (if contains ''in stock'' avail_text then ''In Stock''
      else if contains ''out of stock'' avail_text \<or> contains ''unavailable'' avail_text
      then ''Out of Stock''
      else other)"

definition amazon_availability :: "page \<Rightarrow> string" where
  "amazon_availability pg =
     (case select_text pg ''#availability span'' of
        Some t \<Rightarrow> classify ''Check Site'' (lower t)
      | None \<Rightarrow> ''Check Site'')"

text \<open>JCPenney and Macy's: the first selector that finds a tag decides.\<close>

fun availability_loop :: "page \<Rightarrow> string list \<Rightarrow> string \<Rightarrow> string" where
  "availability_loop pg [] avail = avail"
| "availability_loop pg (selector # rest) avail =
     (case select_text pg selector of
        None \<Rightarrow> availability_loop pg rest avail
      | Some t \<Rightarrow> classify avail (lower t))"

text \<open>
  The three \<open>except\<close> clauses of a product scraper, in their order; each sets only
  \<open>result['error']\<close>.
\<close>

fun on_except :: "product \<Rightarrow> exn \<Rightarrow> product" where
  "on_except result (HTTPError code m) = result\<lparr>error := Some (''HTTP '' @ code @ '': '' @ m)\<rparr>"
| "on_except result (Timeout m) = result\<lparr>error := Some ''Request Timeout''\<rparr>"
| "on_except result e = result\<lparr>error := Some (str_exn e)\<rparr>"

text \<open>
  The \<open>try\<close> block of a product scraper after the page is fetched and parsed. It
  assigns \<open>name\<close>, \<open>price\<close>, \<open>original_price\<close> and \<open>availability\<close> in this order; an
  exception leaves the assignments made so far in \<open>result\<close>, which the model returns
  beside the exception.
\<close>

definition extract_fields ::
  "string list \<Rightarrow> string list \<Rightarrow> string list \<Rightarrow> (page \<Rightarrow> string) \<Rightarrow> page \<Rightarrow> product
    \<Rightarrow> exn option \<times> product" where
  "extract_fields name_sels price_sels orig_sels avail pg result =
     (let r1 = result\<lparr>name := Some (or_unknown (name_loop pg name_sels None))\<rparr>
      in case price_loop pg price_sels None of
           Inl e \<Rightarrow> (Some e, r1)
         | Inr p \<Rightarrow>
             (let r2 = r1\<lparr>price := p\<rparr>
              in case price_loop pg orig_sels None of
                   Inl e \<Rightarrow> (Some e, r2)
                 | Inr op \<Rightarrow>
                     (None, r2\<lparr>original_price := op, availability := Some (avail pg)\<rparr>)))"

definition scrape_page ::
  "string \<Rightarrow> (page \<Rightarrow> product \<Rightarrow> exn option \<times> product) \<Rightarrow> site \<Rightarrow> string \<Rightarrow> product" where
  "scrape_page retailer_name body st u =
     (let result = \<lparr>retailer = Some retailer_name, name = None, price = None,
                     original_price = None, availability = Some ''Unknown'',
                     url = Some u, error = None\<rparr>
      in case product_page st u of
           Inl e \<Rightarrow> on_except result e
         | Inr pg \<Rightarrow>
             (case body pg result of
                (None, r) \<Rightarrow> r
              | (Some e, r) \<Rightarrow> on_except r e))"

definition scrape_amazon_product :: "site \<Rightarrow> string \<Rightarrow> product" where
  \<open>scrape_amazon_product =
     scrape_page ''Amazon''
       (extract_fields [''h1 span'', ''span[id*="title"]'', ''.product-title'', ''h1'']
          [''span.a-offscreen'', ''.a-color-price'', ''[data-a-color="price"]'']
          [''.a-price.a-text-price span.a-offscreen'', ''.a-price-old'']
          amazon_availability)\<close>

definition scrape_jcpenney_product :: "site \<Rightarrow> string \<Rightarrow> product" where
  \<open>scrape_jcpenney_product =
     scrape_page ''JCPenney''
       (extract_fields [''h1'', ''h1.productTitle'', ''[data-testid="product-title"]'', ''.product-name'']
          [''.selling-price'', ''[data-testid="selling-price"]'', ''.price'', ''.productPrice'']
          [''.original-price'', ''.was-price'', ''[data-testid="original-price"]'']
          (\<lambda>pg. availability_loop pg
                  [''[data-testid="availability"]'', ''.availability'', ''#availability'']
                  ''Check Site''))\<close>

definition scrape_macys_product :: "site \<Rightarrow> string \<Rightarrow> product" where
  \<open>scrape_macys_product =
     scrape_page ''Macy's''
       (extract_fields [''h1'', ''h1.productTitle'', ''[data-testid="product-title"]'', ''.productTitle'']
          [''.pricingSummary__pricingGroup'', ''.sale-price'', ''[data-testid="sale-price"]'',
           ''.currentPrice'']
          [''.original-price'', ''.was-price'', ''.regularPrice'']
          (\<lambda>pg. availability_loop pg
                  [''[data-testid="availability"]'', ''.availability-msg'', ''.availabilityMessage'']
                  ''Check Site''))\<close>

section \<open>The search adapters\<close>

text \<open>
  \<open>search_amazon_dockers\<close>, the link loop: a container without the \<open>h2\<close> is skipped, a
  link counts when it is there and its \<open>href\<close> is truthy, and every such link is appended
  to the list \<open>product_links\<close>.
\<close>

fun amazon_links :: "container list \<Rightarrow> string list \<Rightarrow> string list" where
  "amazon_links [] product_links = product_links"
| "amazon_links (NoH2 # rest) product_links = amazon_links rest product_links"
| "amazon_links (H2NoLink # rest) product_links = amazon_links rest product_links"
| "amazon_links (H2Link None # rest) product_links = amazon_links rest product_links"
| "amazon_links (H2Link (Some href) # rest) product_links =
     (if href = [] then amazon_links rest product_links
      else if prefix ''http'' href then amazon_links rest (product_links @ [href])
      else amazon_links rest (product_links @ [''https://www.amazon.com'' @ href]))"

text \<open>
  The URLs that \<open>search_amazon_dockers\<close> hands to \<open>scrape_amazon_product\<close>, in order:
  \<open>product_links[:3]\<close>.
\<close>

definition amazon_detail_fetches :: "page \<Rightarrow> string list" where
  "amazon_detail_fetches pg = take 3 (amazon_links (search_results pg) [])"

text \<open>
  The whole body of the search is inside \<open>try\<close>, and \<open>except Exception\<close> only logs:
  a failed search request leaves \<open>products\<close> empty. \<open>scrape_amazon_product\<close> catches its
  own exceptions, so the loop over the links runs to its end.
\<close>

definition search_amazon_dockers :: "site \<Rightarrow> string \<Rightarrow> pyobj list" where
  "search_amazon_dockers st search_term =
     (case search_page st search_term of
        Inl e \<Rightarrow> []
      | Inr pg \<Rightarrow> map (\<lambda>link. RetailDict (scrape_amazon_product st link))
                    (amazon_detail_fetches pg))"

text \<open>
  JCPenney and Macy's collect the links in a Python \<open>set\<close>. The set is modelled by the
  list of its distinct elements in the order they were added; \<open>set_add\<close> is
  \<open>product_links.add(href)\<close>.
\<close>

definition set_add :: "string \<Rightarrow> string list \<Rightarrow> string list" where
  "set_add x s = (if x \<in> set s then s else s @ [x])"

fun card_links :: "string \<Rightarrow> string option list \<Rightarrow> string list \<Rightarrow> string list" where
  "card_links base [] product_links = product_links"
| "card_links base (None # rest) product_links = card_links base rest product_links"
| "card_links base (Some href # rest) product_links =
     (if href = [] then card_links base rest product_links
      else if \<not> prefix ''http'' href then card_links base rest (set_add (base @ href) product_links)
      else card_links base rest (set_add href product_links))"

text \<open>
  \<open>list(product_links)\<close> lists a set in the order of its hash table, which the program
  does not fix: \<open>set_iter\<close> is that order, a parameter. The fallback selector is tried
  when the first one gave no link.
\<close>

definition card_detail_fetches ::
  "(string list \<Rightarrow> string list) \<Rightarrow> string \<Rightarrow> page \<Rightarrow> string list" where
  "card_detail_fetches set_iter base pg =
     (let product_links = card_links base (links_testid pg) [];
          product_links = (if product_links = [] then card_links base (links_class pg) []
                           else product_links)
      in take 3 (set_iter product_links))"

definition search_jcpenney_dockers ::
  "(string list \<Rightarrow> string list) \<Rightarrow> site \<Rightarrow> string \<Rightarrow> pyobj list" where
  "search_jcpenney_dockers set_iter st search_term =
     (case search_page st search_term of
        Inl e \<Rightarrow> []
      | Inr pg \<Rightarrow> map (\<lambda>link. RetailDict (scrape_jcpenney_product st link))
                    (card_detail_fetches set_iter ''https://www.jcpenney.com'' pg))"

definition search_macys_dockers ::
  "(string list \<Rightarrow> string list) \<Rightarrow> site \<Rightarrow> string \<Rightarrow> pyobj list" where
  "search_macys_dockers set_iter st search_term =
     (case search_page st search_term of
        Inl e \<Rightarrow> []
      | Inr pg \<Rightarrow> map (\<lambda>link. RetailDict (scrape_macys_product st link))
                    (card_detail_fetches set_iter ''https://www.macys.com'' pg))"

section \<open>MasterScraper\<close>

text \<open>
  \<open>self.results\<close> is one dictionary: four keys hold lists, \<open>timestamp\<close> and
  \<open>search_term\<close> hold \<open>None\<close> and later a string. \<open>self.errors\<close> is a list of pairs.
\<close>

datatype rval = RList "pyobj list" | RStr string | RNone

record master =
  results :: "string \<rightharpoonup> rval"
  errors :: "(string \<times> string) list"

definition init :: master where
  "init = \<lparr>results = [''dockers'' \<mapsto> RList [], ''amazon'' \<mapsto> RList [],
                        ''jcpenney'' \<mapsto> RList [], ''macys'' \<mapsto> RList [],
                        ''timestamp'' \<mapsto> RNone, ''search_term'' \<mapsto> RNone],
            errors = []\<rparr>"

text \<open>
  \<open>self.results[key].append(x)\<close> and \<open>.extend(xs)\<close>: the subscript raises KeyError on
  a missing key, the method lookup raises AttributeError on a value that is no list.
\<close>

definition results_extend :: "string \<Rightarrow> pyobj list \<Rightarrow> master \<Rightarrow> exn + master" where
  "results_extend key xs m =
     (case results m key of
        None \<Rightarrow> Inl (KeyError ([CHR 0x27] @ key @ [CHR 0x27]))
      | Some (RList l) \<Rightarrow> Inr (m\<lparr>results := (results m)(key \<mapsto> RList (l @ xs))\<rparr>)
      | Some (RStr v) \<Rightarrow> Inl (AttributeError ''str object has no attribute'')
      | Some RNone \<Rightarrow> Inl (AttributeError ''NoneType object has no attribute''))"

text \<open>The \<open>except Exception as e\<close> clause of a thread's target.\<close>

definition record_error :: "string \<Rightarrow> exn \<Rightarrow> master \<Rightarrow> master" where
  "record_error retailer_name e m = m\<lparr>errors := errors m @ [(retailer_name, str_exn e)]\<rparr>"

text \<open>
  The four targets. The function each one calls is a parameter: the call returns or
  raises. \<open>scrape_dockers\<close> appends the one value returned, the others extend by the
  list returned.
\<close>

definition scrape_dockers :: "(string \<Rightarrow> exn + pyobj) \<Rightarrow> string \<Rightarrow> master \<Rightarrow> master" where
  "scrape_dockers scrape_product dockers_url m =
     (case scrape_product dockers_url of
        Inl e \<Rightarrow> record_error ''Dockers'' e m
      | Inr product \<Rightarrow>
          (case results_extend ''dockers'' [product] m of
             Inl e \<Rightarrow> record_error ''Dockers'' e m
           | Inr m' \<Rightarrow> m'))"

definition scrape_search ::
  "string \<Rightarrow> string \<Rightarrow> (string \<Rightarrow> exn + pyobj list) \<Rightarrow> string \<Rightarrow> master \<Rightarrow> master" where
  "scrape_search key retailer_name search search_term m =
     (case search search_term of
        Inl e \<Rightarrow> record_error retailer_name e m
      | Inr products \<Rightarrow>
          (case results_extend key products m of
             Inl e \<Rightarrow> record_error retailer_name e m
           | Inr m' \<Rightarrow> m'))"

definition scrape_amazon :: "(string \<Rightarrow> exn + pyobj list) \<Rightarrow> string \<Rightarrow> master \<Rightarrow> master" where
  "scrape_amazon = scrape_search ''amazon'' ''Amazon''"

definition scrape_jcpenney :: "(string \<Rightarrow> exn + pyobj list) \<Rightarrow> string \<Rightarrow> master \<Rightarrow> master" where
  "scrape_jcpenney = scrape_search ''jcpenney'' ''JCPenney''"

definition scrape_macys :: "(string \<Rightarrow> exn + pyobj list) \<Rightarrow> string \<Rightarrow> master \<Rightarrow> master" where
  \<open>scrape_macys = scrape_search ''macys'' ''Macy's''\<close>

text \<open>The functions imported at the head of master_scraper, as the threads call them.\<close>

record adapters =
  call_scrape_product :: "string \<Rightarrow> exn + pyobj"
  call_search_amazon :: "string \<Rightarrow> exn + pyobj list"
  call_search_jcpenney :: "string \<Rightarrow> exn + pyobj list"
  call_search_macys :: "string \<Rightarrow> exn + pyobj list"

datatype thread = DockersScraper | AmazonScraper | JCPenneyScraper | MacysScraper

fun target :: "adapters \<Rightarrow> string \<Rightarrow> string \<Rightarrow> thread \<Rightarrow> master \<Rightarrow> master" where
  "target A dockers_url search_term DockersScraper = scrape_dockers (call_scrape_product A) dockers_url"
| "target A dockers_url search_term AmazonScraper = scrape_amazon (call_search_amazon A) search_term"
| "target A dockers_url search_term JCPenneyScraper = scrape_jcpenney (call_search_jcpenney A) search_term"
| "target A dockers_url search_term MacysScraper = scrape_macys (call_search_macys A) search_term"

text \<open>
  \<open>run_all_scrapers\<close>. The two assignments come first; then the four threads are
  started and joined. A target reads nothing of \<open>self\<close> before its call returns and
  then changes \<open>self\<close> in one list operation, which the interpreter does not
  interleave with another: the state after the joins is the state after the four
  targets in the order \<open>sched\<close> in which their list operations took place. \<open>now\<close> is
  \<open>datetime.now().isoformat()\<close>.
\<close>

definition run_all_scrapers ::
  "adapters \<Rightarrow> thread list \<Rightarrow> string \<Rightarrow> string \<Rightarrow> string \<Rightarrow> master \<Rightarrow> master" where
  "run_all_scrapers A sched now dockers_url search_term m =
     fold (target A dockers_url search_term) sched
       (m\<lparr>results := (results m)(''search_term'' \<mapsto> RStr search_term,
                                  ''timestamp'' \<mapsto> RStr now)\<rparr>)"

definition is_schedule :: "thread list \<Rightarrow> bool" where
  "is_schedule sched =
     (distinct sched \<and> set sched = {DockersScraper, AmazonScraper, JCPenneyScraper, MacysScraper})"

text \<open>
  The program as it is linked. \<open>scrape_product\<close> of Dockers_scraper is declared
  \<open>def scrape_product()\<close>, without a parameter, and master_scraper calls
  \<open>scrape_product(url)\<close>: the call raises TypeError before the body runs, whatever the
  body (\<open>dockers_body\<close>, the \<open>Optional[Dict]\<close> it would return) is.
\<close>

definition call_no_parameters :: "pyobj \<Rightarrow> string list \<Rightarrow> exn + pyobj" where
  "call_no_parameters body args =
     (if args = [] then Inr body
      else if length args = 1
      then Inl (TypeError ''scrape_product() takes 0 positional arguments but 1 was given'')
      else Inl (TypeError ''scrape_product() takes 0 positional arguments but more were given''))"

record world =
  dockers_body :: pyobj
  amazon :: site
  jcpenney :: site
  macys :: site
  set_iter :: "string list \<Rightarrow> string list"

definition linked :: "world \<Rightarrow> adapters" where
  "linked w =
     \<lparr>call_scrape_product = (\<lambda>u. call_no_parameters (dockers_body w) [u]),
      call_search_amazon = (\<lambda>t. Inr (search_amazon_dockers (amazon w) t)),
      call_search_jcpenney = (\<lambda>t. Inr (search_jcpenney_dockers (set_iter w) (jcpenney w) t)),
      call_search_macys = (\<lambda>t. Inr (search_macys_dockers (set_iter w) (macys w) t))\<rparr>"

text \<open>\<open>main\<close>, up to the end of the run: a new MasterScraper, then \<open>run_all_scrapers\<close>.\<close>

definition main_run :: "world \<Rightarrow> thread list \<Rightarrow> string \<Rightarrow> string \<Rightarrow> string \<Rightarrow> master" where
  "main_run w sched now dockers_url search_term =
     run_all_scrapers (linked w) sched now dockers_url search_term init"

section \<open>Lowest price and price comparison\<close>

definition retailer_keys :: "string list" where
  "retailer_keys = [''dockers'', ''amazon'', ''jcpenney'', ''macys'']"

text \<open>
  \<open>product.get('price')\<close>: \<open>None\<close> has no method \<open>get\<close>; the Dockers dictionary has no
  key \<open>price\<close>, so \<open>get\<close> gives \<open>None\<close>.
\<close>

fun get_price :: "pyobj \<Rightarrow> exn + rat option" where
  "get_price PyNone = Inl (AttributeError ''NoneType object has no attribute get'')"
| "get_price (RetailDict r) = Inr (price r)"
| "get_price (DockersDict d) = Inr None"

text \<open>
  \<open>for product in self.results[retailer]\<close>: what the loop runs over. \<open>None\<close> is not
  iterable. A string would be run over character by character, and the first character
  fails at \<open>product.get\<close>; an empty string gives no round.
\<close>

definition results_iter :: "string \<Rightarrow> master \<Rightarrow> exn + pyobj list" where
  "results_iter key m =
     (case results m key of
        None \<Rightarrow> Inl (KeyError ([CHR 0x27] @ key @ [CHR 0x27]))
      | Some (RList l) \<Rightarrow> Inr l
      | Some (RStr v) \<Rightarrow> if v = [] then Inr [] else Inl (AttributeError ''str object has no attribute get'')
      | Some RNone \<Rightarrow> Inl (TypeError ''NoneType object is not iterable''))"

text \<open>
  The inner loop and the loop over the four keys, shared by the two functions;
  \<open>entry\<close> is what is appended: \<open>{**product, 'retailer_key': retailer}\<close> in
  \<open>get_lowest_price\<close>, \<open>product\<close> in \<open>get_price_comparison\<close>.
\<close>

fun products_loop :: "(pyobj \<Rightarrow> 'a) \<Rightarrow> pyobj list \<Rightarrow> 'a list \<Rightarrow> exn + 'a list" where
  "products_loop entry [] all_products = Inr all_products"
| "products_loop entry (product # rest) all_products =
     (case get_price product of
        Inl e \<Rightarrow> Inl e
      | Inr p \<Rightarrow>
          if truthy p then products_loop entry rest (all_products @ [entry product])
          else products_loop entry rest all_products)"

fun retailers_loop ::
  "(string \<Rightarrow> pyobj \<Rightarrow> 'a) \<Rightarrow> master \<Rightarrow> string list \<Rightarrow> 'a list \<Rightarrow> exn + 'a list" where
  "retailers_loop entry m [] all_products = Inr all_products"
| "retailers_loop entry m (retailer_key # rest) all_products =
     (case results_iter retailer_key m of
        Inl e \<Rightarrow> Inl e
      | Inr l \<Rightarrow>
          (case products_loop (entry retailer_key) l all_products of
             Inl e \<Rightarrow> Inl e
           | Inr all_products' \<Rightarrow> retailers_loop entry m rest all_products'))"

text \<open>
  The sort key \<open>x.get('price', float('inf'))\<close>: a number or \<open>inf\<close>. Every member of
  \<open>all_products\<close> has passed the truthiness test, so its price is a number; \<open>inf\<close> stands
  for a missing key, and the model gives it in the other cases that the test excludes.
\<close>

datatype fkey = Fin rat | PosInf

instantiation fkey :: linorder
begin

fun less_eq_fkey :: "fkey \<Rightarrow> fkey \<Rightarrow> bool" where
  "less_eq_fkey (Fin a) (Fin b) = (a \<le> b)"
| "less_eq_fkey x PosInf = True"
| "less_eq_fkey PosInf (Fin b) = False"

definition less_fkey :: "fkey \<Rightarrow> fkey \<Rightarrow> bool" where
  "less_fkey x y = (x \<le> y \<and> \<not> y \<le> x)"

instance
proof
  fix x y z :: fkey
  show "(x < y) = (x \<le> y \<and> \<not> y \<le> x)" by (simp add: less_fkey_def)
  show "x \<le> x" by (cases x) simp_all
  show "x \<le> y \<Longrightarrow> y \<le> z \<Longrightarrow> x \<le> z" by (cases x; cases y; cases z) simp_all
  show "x \<le> y \<Longrightarrow> y \<le> x \<Longrightarrow> x = y" by (cases x; cases y) simp_all
  show "x \<le> y \<or> y \<le> x" by (cases x; cases y) auto
qed

end

fun price_key :: "pyobj \<Rightarrow> fkey" where
  "price_key (RetailDict r) = (case price r of Some p \<Rightarrow> Fin p | None \<Rightarrow> PosInf)"
| "price_key x = PosInf"

text \<open>
  \<open>min(all_products, key=...)\<close>: the builtin keeps the first element and replaces it
  only by a later one whose key is strictly smaller.
\<close>

fun min_from :: "('a \<Rightarrow> fkey) \<Rightarrow> 'a \<Rightarrow> 'a list \<Rightarrow> 'a" where
  "min_from key best [] = best"
| "min_from key best (x # xs) = min_from key (if key x < key best then x else best) xs"

text \<open>
  \<open>get_lowest_price\<close>. The dictionary \<open>{**product, 'retailer_key': retailer}\<close> is the
  pair of the product and the key.
\<close>

definition get_lowest_price :: "master \<Rightarrow> exn + (pyobj \<times> string) option" where
  "get_lowest_price m =
     (case retailers_loop (\<lambda>retailer product. (product, retailer)) m retailer_keys [] of
        Inl e \<Rightarrow> Inl e
      | Inr all_products \<Rightarrow>
          (case all_products of
             [] \<Rightarrow> Inr None
           | x # xs \<Rightarrow> Inr (Some (min_from (\<lambda>x. price_key (fst x)) x xs))))"

text \<open>
  \<open>get_price_comparison\<close>. \<open>sorted\<close> is the builtin's stable ascending sort by key,
  here the stable insertion sort \<open>sort_key\<close>.
\<close>

definition get_price_comparison :: "master \<Rightarrow> exn + pyobj list" where
  "get_price_comparison m =
     (case retailers_loop (\<lambda>retailer product. product) m retailer_keys [] of
        Inl e \<Rightarrow> Inl e
      | Inr all_products \<Rightarrow> Inr (sort_key price_key all_products))"

section \<open>The specification's words\<close>

text \<open>
  The flatten order of a result set: the four sources in their fixed order, each list in
  insertion order, every record beside the key of its source.
\<close>

definition list_of :: "master \<Rightarrow> string \<Rightarrow> pyobj list" where
  "list_of m key = (case results m key of Some (RList l) \<Rightarrow> l | _ \<Rightarrow> [])"

definition flatten :: "master \<Rightarrow> (pyobj \<times> string) list" where
  "flatten m = concat (map (\<lambda>key. map (\<lambda>product. (product, key)) (list_of m key)) retailer_keys)"

text \<open>A record with a defined price, and a record with a defined price other than zero.\<close>

fun defined_price :: "pyobj \<Rightarrow> bool" where
  "defined_price (RetailDict r) = (price r \<noteq> None)"
| "defined_price x = False"

fun nonzero_price :: "pyobj \<Rightarrow> bool" where
  "nonzero_price (RetailDict r) = (price r \<noteq> None \<and> price r \<noteq> Some 0)"
| "nonzero_price x = False"

text \<open>
  A populated result set: each of the four keys holds a list of dictionaries.
\<close>

definition populated :: "master \<Rightarrow> bool" where
  "populated m = (\<forall>key \<in> set retailer_keys. \<exists>l. results m key = Some (RList l) \<and> PyNone \<notin> set l)"

text \<open>
  The same result set with every price of zero taken away (set to \<open>None\<close>).
\<close>

fun zero_to_none :: "pyobj \<Rightarrow> pyobj" where
  "zero_to_none (RetailDict r) = (if price r = Some 0 then RetailDict (r\<lparr>price := None\<rparr>) else RetailDict r)"
| "zero_to_none x = x"

fun rval_map :: "(pyobj \<Rightarrow> pyobj) \<Rightarrow> rval \<Rightarrow> rval" where
  "rval_map f (RList l) = RList (map f l)"
| "rval_map f v = v"

definition zero_prices_absent :: "master \<Rightarrow> master" where
  "zero_prices_absent m = m\<lparr>results := (\<lambda>key. map_option (rval_map zero_to_none) (results m key))\<rparr>"

text \<open>The price field of a record, \<open>None\<close> where there is none.\<close>

fun price_value :: "pyobj \<Rightarrow> rat option" where
  "price_value (RetailDict r) = price r"
| "price_value x = None"

text \<open>
  The flattened records whose price is defined and not zero, in flatten order.
\<close>

definition priced :: "master \<Rightarrow> (pyobj \<times> string) list" where
  "priced m = filter (\<lambda>x. nonzero_price (fst x)) (flatten m)"

text \<open>
  The four threads: the key each writes, the name it records errors under, and what
  its call returned, as a list (the one product of \<open>scrape_product\<close> is the list of it).
\<close>

fun key_of :: "thread \<Rightarrow> string" where
  "key_of DockersScraper = ''dockers''"
| "key_of AmazonScraper = ''amazon''"
| "key_of JCPenneyScraper = ''jcpenney''"
| "key_of MacysScraper = ''macys''"

fun name_of :: "thread \<Rightarrow> string" where
  "name_of DockersScraper = ''Dockers''"
| "name_of AmazonScraper = ''Amazon''"
| "name_of JCPenneyScraper = ''JCPenney''"
| \<open>name_of MacysScraper = ''Macy's''\<close>

fun returned :: "adapters \<Rightarrow> string \<Rightarrow> string \<Rightarrow> thread \<Rightarrow> exn + pyobj list" where
  "returned A dockers_url search_term DockersScraper =
     (case call_scrape_product A dockers_url of Inl e \<Rightarrow> Inl e | Inr product \<Rightarrow> Inr [product])"
| "returned A dockers_url search_term AmazonScraper = call_search_amazon A search_term"
| "returned A dockers_url search_term JCPenneyScraper = call_search_jcpenney A search_term"
| "returned A dockers_url search_term MacysScraper = call_search_macys A search_term"

text \<open>The entries of \<open>self.errors\<close> under one retailer's name, in order.\<close>

definition errors_for :: "string \<Rightarrow> master \<Rightarrow> (string \<times> string) list" where
  "errors_for retailer_name m = filter (\<lambda>x. fst x = retailer_name) (errors m)"

text \<open>
  What a thread's target does to a list \<open>l\<close> under its key and to the errors \<open>errs\<close>
  under its name: a raised exception leaves the list and adds one entry, a returned
  list is put behind \<open>l\<close> and adds no entry.
\<close>

definition effect :: "thread \<Rightarrow> exn + pyobj list \<Rightarrow> pyobj list \<Rightarrow> (string \<times> string) list \<Rightarrow> master \<Rightarrow> bool" where
  "effect t outcome l errs m =
     (case outcome of
        Inl e \<Rightarrow> results m (key_of t) = Some (RList l) \<and>
                 errors_for (name_of t) m = errs @ [(name_of t, str_exn e)]
      | Inr xs \<Rightarrow> results m (key_of t) = Some (RList (l @ xs)) \<and>
                  errors_for (name_of t) m = errs)"

text \<open>Each of the four keys holds a list.\<close>

definition keys_hold_lists :: "master \<Rightarrow> bool" where
  "keys_hold_lists m = (\<forall>key\<in>set retailer_keys. \<exists>l. results m key = Some (RList l))"

text \<open>A record with a retailer and a URL that are not \<open>None\<close>; every list holds such records.\<close>

fun has_retailer_and_url :: "pyobj \<Rightarrow> bool" where
  "has_retailer_and_url (RetailDict r) = (retailer r \<noteq> None \<and> url r \<noteq> None)"
| "has_retailer_and_url x = False"

definition lists_good :: "master \<Rightarrow> bool" where
  "lists_good m = (\<forall>key l. results m key = Some (RList l) \<longrightarrow> (\<forall>x\<in>set l. has_retailer_and_url x))"

section \<open>Example pages and result sets\<close>

text \<open>
  A result set written out: four lists, the two strings, no errors; and a dictionary
  as a product scraper builds it.
\<close>

definition listing :: "string \<Rightarrow> string \<Rightarrow> rat option \<Rightarrow> pyobj" where
  "listing shop link p =
     RetailDict \<lparr>retailer = Some shop, name = Some ''Khakis'', price = p, original_price = None,
                 availability = Some ''In Stock'', url = Some link, error = None\<rparr>"

definition shelf :: "pyobj list \<Rightarrow> pyobj list \<Rightarrow> pyobj list \<Rightarrow> pyobj list \<Rightarrow> master" where
  "shelf d a j k =
     \<lparr>results = [''dockers'' \<mapsto> RList d, ''amazon'' \<mapsto> RList a, ''jcpenney'' \<mapsto> RList j,
                 ''macys'' \<mapsto> RList k, ''timestamp'' \<mapsto> RStr ''2026-01-01T00:00:00'',
                 ''search_term'' \<mapsto> RStr ''Dockers Khakis''],
      errors = []\<rparr>"

text \<open>
  An Amazon search page with one result, whose product page shows the price text
  \<open>$0.00\<close> under the first price selector and nothing under the others, while
  JCPenney and Macy's time out; the run of \<open>main\<close> in this world; and the dictionary
  that \<open>scrape_amazon_product\<close> builds there.
\<close>

definition free_page :: page where
  "free_page =
     \<lparr>select_text = (\<lambda>selector. if selector = ''span.a-offscreen'' then Some ''$0.00'' else None),
      search_results = [H2Link (Some ''/dp/B01'')],
      links_testid = [], links_class = []\<rparr>"

definition free_site :: site where
  "free_site = \<lparr>search_page = (\<lambda>t. Inr free_page), product_page = (\<lambda>u. Inr free_page)\<rparr>"

definition down_site :: site where
  "down_site = \<lparr>search_page = (\<lambda>t. Inl (Timeout ''timed out'')),
                 product_page = (\<lambda>u. Inl (Timeout ''timed out''))\<rparr>"

definition free_world :: world where
  "free_world = \<lparr>dockers_body = PyNone, amazon = free_site, jcpenney = down_site,
                  macys = down_site, set_iter = (\<lambda>l. l)\<rparr>"

definition free_run :: master where
  "free_run = main_run free_world [DockersScraper, AmazonScraper, JCPenneyScraper, MacysScraper]
                ''2026-01-01T00:00:00'' ''https://us.dockers.com/products/khakis'' ''Dockers Khakis''"

definition free_item :: pyobj where
  "free_item =
     RetailDict \<lparr>retailer = Some ''Amazon'', name = Some ''Unknown'', price = Some 0,
                 original_price = None, availability = Some ''Check Site'',
                 url = Some ''https://www.amazon.com/dp/B01'', error = None\<rparr>"

text \<open>
  The specification's examples: the prices 29.99, 19.99 and 49.00 across three sources
  (with a second 19.99 later in flatten order); the prices 30, 10, 10, 20 in flatten
  order; and a result set with a price of zero.
\<close>

definition spec_prices :: master where
  \<open>spec_prices =
     shelf [] [listing ''Amazon'' ''a1'' (Some (2999 / 100))]
       [listing ''JCPenney'' ''j1'' (Some (1999 / 100))]
       [listing ''Macy's'' ''m1'' (Some 49), listing ''Macy's'' ''m2'' (Some (1999 / 100))]\<close>

definition spec_order :: master where
  \<open>spec_order =
     shelf [] [listing ''Amazon'' ''a1'' (Some 30), listing ''Amazon'' ''a2'' (Some 10)]
       [listing ''JCPenney'' ''j1'' (Some 10)]
       [listing ''Macy's'' ''m1'' (Some 20)]\<close>

definition zero_shelf :: master where
  "zero_shelf =
     shelf [] [listing ''Amazon'' ''a1'' (Some 0), listing ''Amazon'' ''a2'' (Some 5)]
       [listing ''JCPenney'' ''j1'' None] []"

text \<open>
  The specification's scenario with stubs: one search returns two records, one raises,
  one returns nothing, and the Dockers call raises.
\<close>

definition stub_adapters :: adapters where
  "stub_adapters =
     \<lparr>call_scrape_product = (\<lambda>u. Inl (TypeError ''scrape_product() takes 0 positional arguments but 1 was given'')),
      call_search_amazon = (\<lambda>t. Inr [listing ''Amazon'' ''a1'' (Some 30), listing ''Amazon'' ''a2'' (Some 10)]),
      call_search_jcpenney = (\<lambda>t. Inl (OtherException ''boom'')),
      call_search_macys = (\<lambda>t. Inr [])\<rparr>"

text \<open>An Amazon search page that lists the same product link twice.\<close>

definition twin_page :: page where
  "twin_page =
     \<lparr>select_text = (\<lambda>selector. None),
      search_results = [H2Link (Some ''/dp/B01''), NoH2, H2Link (Some ''/dp/B01'')],
      links_testid = [], links_class = []\<rparr>"

chapter \<open>Verification\<close>

section \<open>Price text parsing never raises\<close>











lemmas price_eval = extract_price_def match_at_def match_group_def remove_char_def py_float_def
  is_digit_def is_digit_or_comma_def digits_val_def digit_val_def Let_def
  dockers_extract_price_def strip_def is_space_def


section \<open>Discount percentage\<close>



section \<open>Lowest price and price comparison, verified\<close>

lemma get_price_value: "x \<noteq> PyNone \<Longrightarrow> get_price x = Inr (price_value x)"
  by (cases x) simp_all

lemma truthy_nonzero: "truthy (price_value x) = nonzero_price x"
proof (cases x)
  case (RetailDict r)
  then show ?thesis by (cases "price r") auto
qed simp_all

lemma products_loop_Inr:
  "products_loop entry l acc = Inr all \<Longrightarrow> all = acc @ map entry (filter nonzero_price l)"
proof (induction l arbitrary: acc)
  case Nil
  then show ?case by simp
next
  case (Cons x l)
  show ?case
  proof (cases "x = PyNone")
    case True
    with Cons.prems show ?thesis by simp
  next
    case False
    then have g: "get_price x = Inr (price_value x)" by (rule get_price_value)
    show ?thesis
    proof (cases "nonzero_price x")
      case True
      with g Cons.prems have "products_loop entry l (acc @ [entry x]) = Inr all"
        by (simp add: truthy_nonzero)
      from Cons.IH[OF this] True show ?thesis by simp
    next
      case False
      with g Cons.prems have "products_loop entry l acc = Inr all"
        by (simp add: truthy_nonzero)
      from Cons.IH[OF this] False show ?thesis by simp
    qed
  qed
qed

lemma products_loop_dicts:
  "PyNone \<notin> set l \<Longrightarrow> products_loop entry l acc = Inr (acc @ map entry (filter nonzero_price l))"
proof (induction l arbitrary: acc)
  case Nil
  then show ?case by simp
next
  case (Cons x l)
  then have "x \<noteq> PyNone" and l: "PyNone \<notin> set l" by auto
  then have g: "get_price x = Inr (price_value x)" by (simp add: get_price_value)
  show ?case using Cons.IH[OF l] g by (simp add: truthy_nonzero)
qed

lemma retailers_loop_populated:
  assumes "\<forall>key\<in>set ks. \<exists>l. results m key = Some (RList l) \<and> PyNone \<notin> set l"
  shows "retailers_loop entry m ks acc =
           Inr (acc @ concat (map (\<lambda>key. map (entry key) (filter nonzero_price (list_of m key))) ks))"
  using assms
proof (induction ks arbitrary: acc)
  case Nil
  then show ?case by simp
next
  case (Cons k ks)
  then obtain l where l: "results m k = Some (RList l)" "PyNone \<notin> set l" by auto
  then have it: "results_iter k m = Inr l" and lo: "list_of m k = l"
    by (simp_all add: results_iter_def list_of_def)
  from Cons.prems have rest: "\<forall>key\<in>set ks. \<exists>l. results m key = Some (RList l) \<and> PyNone \<notin> set l"
    by simp
  have "retailers_loop entry m (k # ks) acc =
          retailers_loop entry m ks (acc @ map (entry k) (filter nonzero_price l))"
    by (simp add: it products_loop_dicts[OF l(2)])
  also have "\<dots> = Inr ((acc @ map (entry k) (filter nonzero_price l)) @
      concat (map (\<lambda>key. map (entry key) (filter nonzero_price (list_of m key))) ks))"
    by (rule Cons.IH[OF rest])
  finally show ?case by (simp add: lo)
qed

lemma filter_flatten:
  "filter (\<lambda>x. P (fst x)) (concat (map (\<lambda>key. map (\<lambda>product. (product, key)) (f key)) ks)) =
   concat (map (\<lambda>key. map (\<lambda>product. (product, key)) (filter P (f key))) ks)"
  by (induction ks) (simp_all add: filter_map comp_def)

lemma map_fst_flatten:
  "map fst (concat (map (\<lambda>key. map (\<lambda>product. (product, key)) (f key)) ks)) =
   concat (map f ks)"
  by (induction ks) (simp_all add: comp_def)

lemma all_products_lowest:
  assumes "populated m"
  shows "retailers_loop (\<lambda>key product. (product, key)) m retailer_keys [] =
           Inr (filter (\<lambda>x. nonzero_price (fst x)) (flatten m))"
  using assms retailers_loop_populated[of retailer_keys m "\<lambda>key product. (product, key)" "[]"]
  by (simp add: populated_def flatten_def filter_flatten)

lemma all_products_comparison:
  assumes "populated m"
  shows "retailers_loop (\<lambda>key product. product) m retailer_keys [] =
           Inr (filter nonzero_price (map fst (flatten m)))"
proof -
  have "filter nonzero_price (map fst (flatten m)) =
        concat (map (\<lambda>key. filter nonzero_price (list_of m key)) retailer_keys)"
    by (simp add: flatten_def map_fst_flatten filter_concat comp_def)
  then show ?thesis
    using assms retailers_loop_populated[of retailer_keys m "\<lambda>key product. product" "[]"]
    by (simp add: populated_def)
qed

lemma min_from_first:
  assumes "\<forall>y\<in>set pre. key best < key y" and "\<forall>y\<in>set mid. key best \<le> key y"
  shows "\<exists>pre' post'. pre @ [best] @ mid @ xs = pre' @ [min_from key best xs] @ post' \<and>
           (\<forall>y\<in>set pre'. key (min_from key best xs) < key y) \<and>
           (\<forall>y\<in>set post'. key (min_from key best xs) \<le> key y)"
  using assms
proof (induction xs arbitrary: pre best mid)
  case Nil
  then show ?case by auto
next
  case (Cons x xs)
  show ?case
  proof (cases "key x < key best")
    case True
    have a: "\<forall>y\<in>set (pre @ [best] @ mid). key x < key y"
      using True Cons.prems by fastforce
    have b: "\<forall>y\<in>set []. key x \<le> key y" by simp
    from Cons.IH[OF a b] True show ?thesis by simp
  next
    case False
    have b: "\<forall>y\<in>set (mid @ [x]). key best \<le> key y"
      using False Cons.prems(2) by auto
    from Cons.IH[OF Cons.prems(1) b] False show ?thesis by simp
  qed
qed

lemma nonzero_price_key:
  "nonzero_price x \<Longrightarrow> \<exists>p. price_value x = Some p \<and> p \<noteq> 0 \<and> price_key x = Fin p"
  by (cases x) auto

lemma fkey_less_Fin [simp]: "(Fin a < Fin b) = (a < b)"
  by (auto simp: less_fkey_def)

text \<open>
  C2, amended. On every populated result set, \<open>get_lowest_price\<close> flattens the four
  lists in the fixed order of the sources, keeps the records whose price is defined
  and not zero, and returns \<open>None\<close> when none is left; otherwise it returns one of
  them, beside the key of its source, whose price is the least among them, and the
  first such in flatten order: every kept record before it has a strictly greater
  price.
\<close>

theorem get_lowest_price_first_minimum:
  assumes "populated m"
  shows "(priced m = [] \<longrightarrow> get_lowest_price m = Inr None) \<and>
         (priced m \<noteq> [] \<longrightarrow>
            (\<exists>before lowest after.
               priced m = before @ [lowest] @ after \<and>
               get_lowest_price m = Inr (Some lowest) \<and>
               (\<forall>x\<in>set before. \<exists>p q. price_value (fst lowest) = Some p \<and>
                    price_value (fst x) = Some q \<and> p < q) \<and>
               (\<forall>x\<in>set after. \<exists>p q. price_value (fst lowest) = Some p \<and>
                    price_value (fst x) = Some q \<and> p \<le> q)))"
proof
  have loop: "retailers_loop (\<lambda>key product. (product, key)) m retailer_keys [] = Inr (priced m)"
    using all_products_lowest[OF assms] by (simp add: priced_def)
  show "priced m = [] \<longrightarrow> get_lowest_price m = Inr None"
    by (simp add: get_lowest_price_def loop)
  show "priced m \<noteq> [] \<longrightarrow>
            (\<exists>before lowest after.
               priced m = before @ [lowest] @ after \<and>
               get_lowest_price m = Inr (Some lowest) \<and>
               (\<forall>x\<in>set before. \<exists>p q. price_value (fst lowest) = Some p \<and>
                    price_value (fst x) = Some q \<and> p < q) \<and>
               (\<forall>x\<in>set after. \<exists>p q. price_value (fst lowest) = Some p \<and>
                    price_value (fst x) = Some q \<and> p \<le> q))"
  proof
    assume "priced m \<noteq> []"
    then obtain x xs where xs: "priced m = x # xs" by (cases "priced m") auto
    let ?key = "\<lambda>x. price_key (fst x)"
    let ?low = "min_from ?key x xs"
    have low: "get_lowest_price m = Inr (Some ?low)"
      by (simp add: get_lowest_price_def loop xs)
    from min_from_first[of "[]" ?key x "[]" xs]
    obtain before after where split: "x # xs = before @ [?low] @ after"
      and b: "\<forall>y\<in>set before. ?key ?low < ?key y"
      and a: "\<forall>y\<in>set after. ?key ?low \<le> ?key y"
      by auto
    have nz: "\<forall>y\<in>set (x # xs). nonzero_price (fst y)"
      using xs[symmetric] by (simp add: priced_def)
    have mem: "?low \<in> set (x # xs)" "set before \<subseteq> set (x # xs)" "set after \<subseteq> set (x # xs)"
      unfolding split by auto
    from nz mem(1) obtain p where p: "price_value (fst ?low) = Some p" "price_key (fst ?low) = Fin p"
      using nonzero_price_key by blast
    have b': "\<forall>y\<in>set before. \<exists>p q. price_value (fst ?low) = Some p \<and>
                    price_value (fst y) = Some q \<and> p < q"
    proof
      fix y assume y: "y \<in> set before"
      with nz mem(2) obtain q where q: "price_value (fst y) = Some q" "price_key (fst y) = Fin q"
        using nonzero_price_key by blast
      from b y have "price_key (fst ?low) < price_key (fst y)" by blast
      then have "p < q" unfolding p(2) q(2) by simp
      with p(1) q(1) show "\<exists>p q. price_value (fst ?low) = Some p \<and>
                    price_value (fst y) = Some q \<and> p < q" by blast
    qed
    have a': "\<forall>y\<in>set after. \<exists>p q. price_value (fst ?low) = Some p \<and>
                    price_value (fst y) = Some q \<and> p \<le> q"
    proof
      fix y assume y: "y \<in> set after"
      with nz mem(3) obtain q where q: "price_value (fst y) = Some q" "price_key (fst y) = Fin q"
        using nonzero_price_key by blast
      from a y have "price_key (fst ?low) \<le> price_key (fst y)" by blast
      then have "p \<le> q" unfolding p(2) q(2) by simp
      with p(1) q(1) show "\<exists>p q. price_value (fst ?low) = Some p \<and>
                    price_value (fst y) = Some q \<and> p \<le> q" by blast
    qed
    from split xs low b' a' show "\<exists>before lowest after.
               priced m = before @ [lowest] @ after \<and>
               get_lowest_price m = Inr (Some lowest) \<and>
               (\<forall>x\<in>set before. \<exists>p q. price_value (fst lowest) = Some p \<and>
                    price_value (fst x) = Some q \<and> p < q) \<and>
               (\<forall>x\<in>set after. \<exists>p q. price_value (fst lowest) = Some p \<and>
                    price_value (fst x) = Some q \<and> p \<le> q)"
      by metis
  qed
qed

text \<open>
  C3, amended. On every populated result set, \<open>get_price_comparison\<close> returns the
  flattened records whose price is defined and not zero (the same records, each as often),
  in ascending order of price, and records of equal price keep their flatten order.
\<close>

theorem get_price_comparison_stable:
  assumes "populated m"
  shows "\<exists>out. get_price_comparison m = Inr out \<and>
           mset out = mset (map fst (priced m)) \<and>
           sorted_wrt (\<lambda>x y. \<exists>p q. price_value x = Some p \<and> price_value y = Some q \<and> p \<le> q) out \<and>
           (\<forall>p. filter (\<lambda>x. price_value x = Some p) out =
                filter (\<lambda>x. price_value x = Some p) (map fst (priced m)))"
proof -
  let ?all = "map fst (priced m)"
  let ?out = "sort_key price_key ?all"
  have all: "?all = filter nonzero_price (map fst (flatten m))"
    by (simp add: priced_def filter_map comp_def)
  have out: "get_price_comparison m = Inr ?out"
    by (simp add: get_price_comparison_def all_products_comparison[OF assms] all)
  have nz: "\<forall>x\<in>set ?all. nonzero_price x"
    unfolding all by simp
  have key: "\<And>x p. x \<in> set ?all \<Longrightarrow> (price_key x = Fin p) = (price_value x = Some p)"
    using nz nonzero_price_key by fastforce
  have "sorted (map price_key ?out)" by simp
  then have "sorted_wrt (\<lambda>x y. price_key x \<le> price_key y) ?out"
    by (simp add: sorted_map)
  then have srt: "sorted_wrt (\<lambda>x y. \<exists>p q. price_value x = Some p \<and> price_value y = Some q \<and> p \<le> q) ?out"
  proof (rule sorted_wrt_mono_rel[rotated])
    fix x y assume "x \<in> set ?out" "y \<in> set ?out" "price_key x \<le> price_key y"
    then have "x \<in> set ?all" "y \<in> set ?all" and le: "price_key x \<le> price_key y"
      by simp_all
    with nz have x: "nonzero_price x" and y: "nonzero_price y" by blast+
    from nonzero_price_key[OF x] nonzero_price_key[OF y] le
    show "\<exists>p q. price_value x = Some p \<and> price_value y = Some q \<and> p \<le> q" by auto
  qed
  have stab: "\<forall>p. filter (\<lambda>x. price_value x = Some p) ?out =
                filter (\<lambda>x. price_value x = Some p) ?all"
  proof
    fix p
    have "filter (\<lambda>x. price_value x = Some p) ?out = filter (\<lambda>x. price_key x = Fin p) ?out"
      by (rule filter_cong) (simp_all add: key)
    also have "\<dots> = filter (\<lambda>x. price_key x = Fin p) ?all"
      by (rule sort_key_stable)
    also have "\<dots> = filter (\<lambda>x. price_value x = Some p) ?all"
      by (rule filter_cong) (simp_all add: key)
    finally show "filter (\<lambda>x. price_value x = Some p) ?out =
                filter (\<lambda>x. price_value x = Some p) ?all" .
  qed
  have "mset ?out = mset ?all" by simp
  with out srt stab show ?thesis by blast
qed

section \<open>The examples evaluated\<close>

lemma free_price: "extract_price py_float ''$0.00'' = Inr (Some 0)"
  by (simp add: price_eval)

lemma free_product:
  "scrape_amazon_product free_site ''https://www.amazon.com/dp/B01'' =
     \<lparr>retailer = Some ''Amazon'', name = Some ''Unknown'', price = Some 0,
      original_price = None, availability = Some ''Check Site'',
      url = Some ''https://www.amazon.com/dp/B01'', error = None\<rparr>"
  by (simp add: scrape_amazon_product_def scrape_page_def extract_fields_def free_site_def
      free_page_def free_price or_unknown_def amazon_availability_def)

lemma free_search:
  "search_amazon_dockers free_site ''Dockers Khakis'' = [free_item]"
proof -
  have "amazon_detail_fetches free_page = [''https://www.amazon.com/dp/B01'']"
    by (simp add: amazon_detail_fetches_def free_page_def)
  then show ?thesis
    using free_product
    by (simp add: search_amazon_dockers_def free_item_def) (simp add: free_site_def)
qed

lemma free_run_results:
  "results free_run ''dockers'' = Some (RList [])"
  "results free_run ''amazon'' = Some (RList [free_item])"
  "results free_run ''jcpenney'' = Some (RList [])"
  "results free_run ''macys'' = Some (RList [])"
  by (simp_all add: free_run_def main_run_def run_all_scrapers_def linked_def init_def
      scrape_dockers_def call_no_parameters_def record_error_def scrape_amazon_def
      scrape_jcpenney_def scrape_macys_def scrape_search_def results_extend_def
      free_world_def free_search search_jcpenney_dockers_def search_macys_dockers_def
      down_site_def)


lemmas shelf_eval = shelf_def listing_def populated_def retailer_keys_def get_lowest_price_def
  get_price_comparison_def results_iter_def less_fkey_def

text \<open>
  C2 as stated fails on a run: the one record found has the defined price 0, and
  \<open>get_lowest_price\<close> returns \<open>None\<close>.
\<close>

theorem get_lowest_price_defined_counterexample:
  "populated free_run \<and>
   filter defined_price (map fst (flatten free_run)) = [free_item] \<and>
   price_value free_item = Some 0 \<and>
   get_lowest_price free_run = Inr None"
  by (simp add: populated_def flatten_def list_of_def retailer_keys_def free_run_results
      free_item_def get_lowest_price_def results_iter_def)

text \<open>
  C3 as stated fails on the same run: the record with the defined price 0 is not in
  the list that \<open>get_price_comparison\<close> returns.
\<close>

theorem get_price_comparison_defined_counterexample:
  "populated free_run \<and>
   filter defined_price (map fst (flatten free_run)) = [free_item] \<and>
   get_price_comparison free_run = Inr []"
  by (simp add: populated_def flatten_def list_of_def retailer_keys_def free_run_results
      free_item_def get_price_comparison_def results_iter_def)

text \<open>The specification's example: the first record priced 19.99 is returned.\<close>

theorem get_lowest_price_first_minimum_witness:
  "populated spec_prices \<and>
   get_lowest_price spec_prices =
     Inr (Some (listing ''JCPenney'' ''j1'' (Some (1999 / 100)), ''jcpenney''))"
proof -
  have p: "populated spec_prices"
    by (simp add: spec_prices_def shelf_eval)
  have e: "get_lowest_price spec_prices =
     Inr (Some (listing ''JCPenney'' ''j1'' (Some (1999 / 100)), ''jcpenney''))"
    by (simp add: spec_prices_def shelf_eval)
  show ?thesis
    using get_lowest_price_first_minimum [OF p] p e by simp
qed

text \<open>The specification's example: 30, 10, 10, 20 come out as 10 (first), 10 (second), 20, 30.\<close>

theorem get_price_comparison_stable_witness:
  \<open>populated spec_order \<and>
   get_price_comparison spec_order =
     Inr [listing ''Amazon'' ''a2'' (Some 10), listing ''JCPenney'' ''j1'' (Some 10),
          listing ''Macy's'' ''m1'' (Some 20), listing ''Amazon'' ''a1'' (Some 30)]\<close>
proof -
  have p: "populated spec_order"
    by (simp add: spec_order_def shelf_eval)
  have e: \<open>get_price_comparison spec_order =
     Inr [listing ''Amazon'' ''a2'' (Some 10), listing ''JCPenney'' ''j1'' (Some 10),
          listing ''Macy's'' ''m1'' (Some 20), listing ''Amazon'' ''a1'' (Some 30)]\<close>
    by (simp add: spec_order_def shelf_eval)
  show ?thesis
    using get_price_comparison_stable [OF p] p e by simp
qed


section \<open>A price of zero counts as no price\<close>

lemma zero_to_none_PyNone: "(zero_to_none x = PyNone) = (x = PyNone)"
  by (cases x) auto

lemma zero_to_none_nonzero: "nonzero_price (zero_to_none x) = nonzero_price x"
  by (cases x) auto

lemma zero_to_none_keeps: "nonzero_price x \<Longrightarrow> zero_to_none x = x"
  by (cases x) auto

lemma products_loop_zero:
  "products_loop entry (map zero_to_none l) acc = products_loop entry l acc"
proof (induction l arbitrary: acc)
  case Nil
  then show ?case by simp
next
  case (Cons x l)
  show ?case
  proof (cases "x = PyNone")
    case True
    then show ?thesis by simp
  next
    case False
    then have g: "get_price x = Inr (price_value x)" by (rule get_price_value)
    from False have "zero_to_none x \<noteq> PyNone" by (simp add: zero_to_none_PyNone)
    then have gz: "get_price (zero_to_none x) = Inr (price_value (zero_to_none x))"
      by (rule get_price_value)
    show ?thesis
    proof (cases "nonzero_price x")
      case True
      then show ?thesis using g Cons.IH by (simp add: zero_to_none_keeps truthy_nonzero)
    next
      case False
      then show ?thesis using g gz Cons.IH by (simp add: truthy_nonzero zero_to_none_nonzero)
    qed
  qed
qed

lemma results_iter_zero:
  "results_iter key (zero_prices_absent m) =
     (case results_iter key m of Inl e \<Rightarrow> Inl e | Inr l \<Rightarrow> Inr (map zero_to_none l))"
proof (cases "results m key")
  case None
  then show ?thesis by (simp add: results_iter_def zero_prices_absent_def)
next
  case (Some v)
  then show ?thesis by (cases v) (simp_all add: results_iter_def zero_prices_absent_def)
qed

lemma retailers_loop_zero:
  "retailers_loop entry (zero_prices_absent m) ks acc = retailers_loop entry m ks acc"
proof (induction ks arbitrary: acc)
  case Nil
  then show ?case by simp
next
  case (Cons k ks)
  show ?case
  proof (cases "results_iter k m")
    case (Inl e)
    then show ?thesis by (simp add: results_iter_zero)
  next
    case (Inr l)
    then show ?thesis
      by (simp add: results_iter_zero products_loop_zero Cons.IH split: sum.splits)
  qed
qed

lemma retailers_loop_Inr:
  "retailers_loop entry m ks acc = Inr all \<Longrightarrow>
     \<forall>x\<in>set all. x \<in> set acc \<or> (\<exists>key p. x = entry key p \<and> nonzero_price p)"
proof (induction ks arbitrary: acc)
  case Nil
  then show ?case by simp
next
  case (Cons k ks)
  from Cons.prems obtain l acc' where l: "results_iter k m = Inr l"
    and pl: "products_loop (entry k) l acc = Inr acc'"
    and rest: "retailers_loop entry m ks acc' = Inr all"
    by (auto split: sum.splits)
  from products_loop_Inr[OF pl] have acc': "acc' = acc @ map (entry k) (filter nonzero_price l)" .
  show ?case
  proof
    fix x assume "x \<in> set all"
    with Cons.IH[OF rest] have "x \<in> set acc' \<or> (\<exists>key p. x = entry key p \<and> nonzero_price p)"
      by blast
    then show "x \<in> set acc \<or> (\<exists>key p. x = entry key p \<and> nonzero_price p)"
      unfolding acc' by auto
  qed
qed

lemma min_from_mem: "min_from key best xs \<in> set (best # xs)"
  by (induction xs arbitrary: best) (simp, force)

text \<open>
  C10. On every result set, \<open>get_lowest_price\<close> and \<open>get_price_comparison\<close> give what
  they give when every price of zero is replaced by \<open>None\<close>; no record of the comparison
  list and no record returned as the lowest has a price that is \<open>None\<close> or zero.
\<close>

theorem zero_price_excluded:
  "get_lowest_price (zero_prices_absent m) = get_lowest_price m \<and>
   get_price_comparison (zero_prices_absent m) = get_price_comparison m \<and>
   (\<forall>out x. get_price_comparison m = Inr out \<longrightarrow> x \<in> set out \<longrightarrow> nonzero_price x) \<and>
   (\<forall>x key. get_lowest_price m = Inr (Some (x, key)) \<longrightarrow> nonzero_price x)"
proof (intro conjI allI impI)
  show "get_lowest_price (zero_prices_absent m) = get_lowest_price m"
    by (simp add: get_lowest_price_def retailers_loop_zero)
  show "get_price_comparison (zero_prices_absent m) = get_price_comparison m"
    by (simp add: get_price_comparison_def retailers_loop_zero)
next
  fix out x
  assume o: "get_price_comparison m = Inr out" and x: "x \<in> set out"
  from o obtain all where all: "retailers_loop (\<lambda>key product. product) m retailer_keys [] = Inr all"
    and out: "out = sort_key price_key all"
    by (auto simp: get_price_comparison_def split: sum.splits)
  from x out have "x \<in> set all" by simp
  with retailers_loop_Inr[OF all] show "nonzero_price x" by auto
next
  fix x key
  assume lo: "get_lowest_price m = Inr (Some (x, key))"
  let ?loop = "retailers_loop (\<lambda>key product. (product, key)) m retailer_keys []"
  from lo obtain all where all: "?loop = Inr all"
    by (cases ?loop) (simp_all add: get_lowest_price_def)
  with lo have r: "(case all of [] \<Rightarrow> Inr None
             | y # ys \<Rightarrow> Inr (Some (min_from (\<lambda>x. price_key (fst x)) y ys))) =
            (Inr (Some (x, key)) :: exn + (pyobj \<times> string) option)"
    by (simp add: get_lowest_price_def)
  from r obtain y ys where ys: "all = y # ys" and m: "min_from (\<lambda>x. price_key (fst x)) y ys = (x, key)"
    by (cases all) auto
  from min_from_mem[of "\<lambda>x. price_key (fst x)" y ys] m ys have "(x, key) \<in> set all" by simp
  with retailers_loop_Inr[OF all] show "nonzero_price x" by auto
qed

text \<open>A result set with the prices 0 and 5: the record priced 5 is the lowest and the only one listed.\<close>

theorem zero_price_excluded_witness:
  "get_lowest_price zero_shelf = Inr (Some (listing ''Amazon'' ''a2'' (Some 5), ''amazon'')) \<and>
   get_price_comparison zero_shelf = Inr [listing ''Amazon'' ''a2'' (Some 5)] \<and>
   get_price_comparison (zero_prices_absent zero_shelf) = Inr [listing ''Amazon'' ''a2'' (Some 5)] \<and>
   \<not> nonzero_price (listing ''Amazon'' ''a1'' (Some 0))"
proof -
  have e: "get_lowest_price zero_shelf = Inr (Some (listing ''Amazon'' ''a2'' (Some 5), ''amazon'')) \<and>
   get_price_comparison zero_shelf = Inr [listing ''Amazon'' ''a2'' (Some 5)] \<and>
   \<not> nonzero_price (listing ''Amazon'' ''a1'' (Some 0))"
    by (simp add: zero_shelf_def shelf_eval)
  show ?thesis
    using zero_price_excluded [of zero_shelf] e by simp
qed

section \<open>Failures stay within their thread\<close>

lemma target_eq:
  "target A u q t m =
     (case returned A u q t of
        Inl e \<Rightarrow> record_error (name_of t) e m
      | Inr xs \<Rightarrow>
          (case results_extend (key_of t) xs m of
             Inl e \<Rightarrow> record_error (name_of t) e m
           | Inr m' \<Rightarrow> m'))"
  by (cases t)
    (simp_all add: scrape_dockers_def scrape_amazon_def scrape_jcpenney_def scrape_macys_def
      scrape_search_def split: sum.splits)

lemma key_of_inj: "(key_of s = key_of t) = (s = t)"
  by (cases s; cases t) simp_all

lemma name_of_inj: "(name_of s = name_of t) = (s = t)"
  by (cases s; cases t) simp_all

lemma results_record_error [simp]: "results (record_error n e m) = results m"
  by (simp add: record_error_def)

lemma errors_record_error [simp]: "errors (record_error n e m) = errors m @ [(n, str_exn e)]"
  by (simp add: record_error_def)

lemma results_extend_Inr:
  "results_extend key xs m = Inr m' \<Longrightarrow>
     \<exists>l. results m key = Some (RList l) \<and> m' = m\<lparr>results := (results m)(key \<mapsto> RList (l @ xs))\<rparr>"
  by (auto simp: results_extend_def split: option.splits rval.splits)

lemma results_extend_list:
  "results m key = Some (RList l) \<Longrightarrow>
     results_extend key xs m = Inr (m\<lparr>results := (results m)(key \<mapsto> RList (l @ xs))\<rparr>)"
  by (simp add: results_extend_def)

text \<open>A target leaves the other keys and the other retailers' errors alone.\<close>

lemma target_other:
  assumes "s \<noteq> t"
  shows "results (target A u q s m) (key_of t) = results m (key_of t)"
    and "errors_for (name_of t) (target A u q s m) = errors_for (name_of t) m"
proof -
  have k: "key_of s \<noteq> key_of t" and n: "name_of s \<noteq> name_of t"
    using assms by (simp_all add: key_of_inj name_of_inj)
  show "results (target A u q s m) (key_of t) = results m (key_of t)"
    using k by (auto simp: target_eq split: sum.splits dest!: results_extend_Inr)
  show "errors_for (name_of t) (target A u q s m) = errors_for (name_of t) m"
    using n by (auto simp: target_eq errors_for_def split: sum.splits dest!: results_extend_Inr)
qed

lemma fold_target_other:
  "t \<notin> set sched \<Longrightarrow>
     results (fold (target A u q) sched m) (key_of t) = results m (key_of t) \<and>
     errors_for (name_of t) (fold (target A u q) sched m) = errors_for (name_of t) m"
proof (induction sched arbitrary: m)
  case Nil
  then show ?case by simp
next
  case (Cons s sched)
  then have "s \<noteq> t" and "t \<notin> set sched" by auto
  with Cons.IH[of "target A u q s m"] target_other[of s t A u q m] show ?case by simp
qed

text \<open>What a target does to its own list and its own errors.\<close>

lemma target_own:
  assumes "results m (key_of t) = Some (RList l)"
  shows "effect t (returned A u q t) l (errors_for (name_of t) m) (target A u q t m)"
  using assms
  by (auto simp: effect_def target_eq errors_for_def results_extend_list split: sum.splits)

lemma fold_target_own:
  assumes "distinct sched" and "t \<in> set sched" and "results m (key_of t) = Some (RList l)"
  shows "effect t (returned A u q t) l (errors_for (name_of t) m) (fold (target A u q) sched m)"
  using assms
proof (induction sched arbitrary: m)
  case Nil
  then show ?case by simp
next
  case (Cons s sched)
  show ?case
  proof (cases "s = t")
    case True
    with Cons.prems have notin: "t \<notin> set sched" by simp
    from target_own[OF Cons.prems(3)]
    have "effect t (returned A u q t) l (errors_for (name_of t) m) (target A u q t m)" .
    with fold_target_other[OF notin, of A u q "target A u q t m"] True
    show ?thesis by (simp add: effect_def split: sum.splits)
  next
    case False
    with Cons.prems have d: "distinct sched" and i: "t \<in> set sched" by auto
    from target_other[OF False, of A u q m] Cons.prems(3)
    have r: "results (target A u q s m) (key_of t) = Some (RList l)"
      and e: "errors_for (name_of t) (target A u q s m) = errors_for (name_of t) m"
      by simp_all
    from Cons.IH[OF d i r] e show ?thesis by simp
  qed
qed

lemma run_effect:
  assumes "is_schedule sched"
  shows "effect t (returned A u q t) [] [] (run_all_scrapers A sched now u q init)"
proof -
  let ?m = "init\<lparr>results := (results init)(''search_term'' \<mapsto> RStr q, ''timestamp'' \<mapsto> RStr now)\<rparr>"
  have d: "distinct sched" and i: "t \<in> set sched"
    using assms by (cases t; simp add: is_schedule_def)+
  have r: "results ?m (key_of t) = Some (RList [])"
    by (cases t) (simp_all add: init_def)
  have e: "errors_for (name_of t) ?m = []"
    by (simp add: errors_for_def init_def)
  from fold_target_own[OF d i r, of A u q] e show ?thesis
    by (simp add: run_all_scrapers_def)
qed


text \<open>
  C1. For every behaviour of the four adapters (each call returns or raises an
  exception) and every order in which the four threads take effect,
  \<open>run_all_scrapers\<close> on a new MasterScraper returns a state in which a source whose
  call raised has an empty list and exactly one entry (retailer, message) in the errors,
  and a source whose call returned has exactly the records returned and no entry.
\<close>

theorem run_all_scrapers_isolates_failures:
  assumes "is_schedule sched"
  shows \<open>(case call_scrape_product A dockers_url of
            Inl e \<Rightarrow>
              results (run_all_scrapers A sched now dockers_url search_term init) ''dockers''
                = Some (RList []) \<and>
              errors_for ''Dockers'' (run_all_scrapers A sched now dockers_url search_term init)
                = [(''Dockers'', str_exn e)]
          | Inr product \<Rightarrow>
              results (run_all_scrapers A sched now dockers_url search_term init) ''dockers''
                = Some (RList [product]) \<and>
              errors_for ''Dockers'' (run_all_scrapers A sched now dockers_url search_term init)
                = []) \<and>
         (case call_search_amazon A search_term of
            Inl e \<Rightarrow>
              results (run_all_scrapers A sched now dockers_url search_term init) ''amazon''
                = Some (RList []) \<and>
              errors_for ''Amazon'' (run_all_scrapers A sched now dockers_url search_term init)
                = [(''Amazon'', str_exn e)]
          | Inr products \<Rightarrow>
              results (run_all_scrapers A sched now dockers_url search_term init) ''amazon''
                = Some (RList products) \<and>
              errors_for ''Amazon'' (run_all_scrapers A sched now dockers_url search_term init)
                = []) \<and>
         (case call_search_jcpenney A search_term of
            Inl e \<Rightarrow>
              results (run_all_scrapers A sched now dockers_url search_term init) ''jcpenney''
                = Some (RList []) \<and>
              errors_for ''JCPenney'' (run_all_scrapers A sched now dockers_url search_term init)
                = [(''JCPenney'', str_exn e)]
          | Inr products \<Rightarrow>
              results (run_all_scrapers A sched now dockers_url search_term init) ''jcpenney''
                = Some (RList products) \<and>
              errors_for ''JCPenney'' (run_all_scrapers A sched now dockers_url search_term init)
                = []) \<and>
         (case call_search_macys A search_term of
            Inl e \<Rightarrow>
              results (run_all_scrapers A sched now dockers_url search_term init) ''macys''
                = Some (RList []) \<and>
              errors_for ''Macy's'' (run_all_scrapers A sched now dockers_url search_term init)
                = [(''Macy's'', str_exn e)]
          | Inr products \<Rightarrow>
              results (run_all_scrapers A sched now dockers_url search_term init) ''macys''
                = Some (RList products) \<and>
              errors_for ''Macy's'' (run_all_scrapers A sched now dockers_url search_term init)
                = [])\<close>
proof (intro conjI)
  note eff = run_effect[OF assms, of _ A dockers_url search_term now]
  show \<open>case call_scrape_product A dockers_url of
            Inl e \<Rightarrow>
              results (run_all_scrapers A sched now dockers_url search_term init) ''dockers''
                = Some (RList []) \<and>
              errors_for ''Dockers'' (run_all_scrapers A sched now dockers_url search_term init)
                = [(''Dockers'', str_exn e)]
          | Inr product \<Rightarrow>
              results (run_all_scrapers A sched now dockers_url search_term init) ''dockers''
                = Some (RList [product]) \<and>
              errors_for ''Dockers'' (run_all_scrapers A sched now dockers_url search_term init)
                = []\<close>
    using eff[of DockersScraper] by (simp add: effect_def split: sum.splits)
  show \<open>case call_search_amazon A search_term of
            Inl e \<Rightarrow>
              results (run_all_scrapers A sched now dockers_url search_term init) ''amazon''
                = Some (RList []) \<and>
              errors_for ''Amazon'' (run_all_scrapers A sched now dockers_url search_term init)
                = [(''Amazon'', str_exn e)]
          | Inr products \<Rightarrow>
              results (run_all_scrapers A sched now dockers_url search_term init) ''amazon''
                = Some (RList products) \<and>
              errors_for ''Amazon'' (run_all_scrapers A sched now dockers_url search_term init)
                = []\<close>
    using eff[of AmazonScraper] by (simp add: effect_def split: sum.splits)
  show \<open>case call_search_jcpenney A search_term of
            Inl e \<Rightarrow>
              results (run_all_scrapers A sched now dockers_url search_term init) ''jcpenney''
                = Some (RList []) \<and>
              errors_for ''JCPenney'' (run_all_scrapers A sched now dockers_url search_term init)
                = [(''JCPenney'', str_exn e)]
          | Inr products \<Rightarrow>
              results (run_all_scrapers A sched now dockers_url search_term init) ''jcpenney''
                = Some (RList products) \<and>
              errors_for ''JCPenney'' (run_all_scrapers A sched now dockers_url search_term init)
                = []\<close>
    using eff[of JCPenneyScraper] by (simp add: effect_def split: sum.splits)
  show \<open>case call_search_macys A search_term of
            Inl e \<Rightarrow>
              results (run_all_scrapers A sched now dockers_url search_term init) ''macys''
                = Some (RList []) \<and>
              errors_for ''Macy's'' (run_all_scrapers A sched now dockers_url search_term init)
                = [(''Macy's'', str_exn e)]
          | Inr products \<Rightarrow>
              results (run_all_scrapers A sched now dockers_url search_term init) ''macys''
                = Some (RList products) \<and>
              errors_for ''Macy's'' (run_all_scrapers A sched now dockers_url search_term init)
                = []\<close>
    using eff[of MacysScraper] by (simp add: effect_def split: sum.splits)
qed

section \<open>Every source keeps its key\<close>

lemma target_keeps_keys: "keys_hold_lists m \<Longrightarrow> keys_hold_lists (target A u q t m)"
  by (auto simp: keys_hold_lists_def target_eq split: sum.splits dest!: results_extend_Inr)

lemma fold_target_keeps_keys:
  "keys_hold_lists m \<Longrightarrow> keys_hold_lists (fold (target A u q) sched m)"
  by (induction sched arbitrary: m) (simp_all add: target_keeps_keys)

lemma run_keys_hold_lists:
  "keys_hold_lists (run_all_scrapers A sched now dockers_url search_term init)"
proof -
  have "keys_hold_lists
          (init\<lparr>results := (results init)(''search_term'' \<mapsto> RStr search_term,
                                           ''timestamp'' \<mapsto> RStr now)\<rparr>)"
    by (simp add: keys_hold_lists_def retailer_keys_def init_def)
  then show ?thesis
    unfolding run_all_scrapers_def by (rule fold_target_keeps_keys)
qed

text \<open>
  C4. After \<open>run_all_scrapers\<close> on a new MasterScraper, each of the keys dockers,
  amazon, jcpenney and macys is in \<open>results\<close> and holds a list, whatever the adapters
  did and in whatever order the threads took effect.
\<close>

theorem run_all_scrapers_keeps_keys:
  "\<forall>key\<in>set retailer_keys.
     \<exists>l. results (run_all_scrapers A sched now dockers_url search_term init) key = Some (RList l)"
  using run_keys_hold_lists [of A sched now dockers_url search_term]
  by (simp add: keys_hold_lists_def)

section \<open>Records of a run have a retailer and a URL\<close>

lemma on_except_keeps: "retailer (on_except r e) = retailer r \<and> url (on_except r e) = url r"
  by (cases e) simp_all

lemma extract_fields_keeps:
  "extract_fields ns ps os av pg r = (eo, r') \<Longrightarrow> retailer r' = retailer r \<and> url r' = url r"
  by (auto simp: extract_fields_def Let_def split: sum.splits)

lemma scrape_page_keeps:
  assumes "\<And>pg r eo r'. body pg r = (eo, r') \<Longrightarrow> retailer r' = retailer r \<and> url r' = url r"
  shows "retailer (scrape_page n body st u) = Some n \<and> url (scrape_page n body st u) = Some u"
proof (cases "product_page st u")
  case (Inl e)
  then show ?thesis by (simp add: scrape_page_def on_except_keeps)
next
  case (Inr pg)
  let ?r0 = "\<lparr>retailer = Some n, name = None, price = None, original_price = None,
              availability = Some ''Unknown'', url = Some u, error = None\<rparr>"
  obtain eo r' where b: "body pg ?r0 = (eo, r')" by (cases "body pg ?r0")
  from assms[OF b] have k: "retailer r' = Some n \<and> url r' = Some u" by simp
  show ?thesis
  proof (cases eo)
    case None
    with Inr b k show ?thesis by (simp add: scrape_page_def)
  next
    case (Some e)
    with Inr b k show ?thesis by (simp add: scrape_page_def on_except_keeps)
  qed
qed

lemma scrape_products_keep:
  "retailer (scrape_amazon_product st u) = Some ''Amazon'' \<and> url (scrape_amazon_product st u) = Some u"
  "retailer (scrape_jcpenney_product st u) = Some ''JCPenney'' \<and> url (scrape_jcpenney_product st u) = Some u"
  \<open>retailer (scrape_macys_product st u) = Some ''Macy's'' \<and> url (scrape_macys_product st u) = Some u\<close>
  unfolding scrape_amazon_product_def scrape_jcpenney_product_def scrape_macys_product_def
  by (rule scrape_page_keeps[OF extract_fields_keeps], assumption)+

lemma searches_good:
  "\<forall>x\<in>set (search_amazon_dockers st q). has_retailer_and_url x"
  "\<forall>x\<in>set (search_jcpenney_dockers it st q). has_retailer_and_url x"
  "\<forall>x\<in>set (search_macys_dockers it st q). has_retailer_and_url x"
  by (auto simp: search_amazon_dockers_def search_jcpenney_dockers_def search_macys_dockers_def
      scrape_products_keep split: sum.splits)

lemma linked_returned_good:
  "returned (linked w) u q t = Inr xs \<Longrightarrow> \<forall>x\<in>set xs. has_retailer_and_url x"
  using searches_good
  by (cases t) (auto simp: linked_def call_no_parameters_def)

lemma target_linked_good:
  assumes "lists_good m"
  shows "lists_good (target (linked w) u q t m)"
proof (cases "returned (linked w) u q t")
  case (Inl e)
  with assms show ?thesis by (simp add: target_eq lists_good_def)
next
  case (Inr xs)
  then have g: "\<forall>x\<in>set xs. has_retailer_and_url x" by (rule linked_returned_good)
  show ?thesis
  proof (cases "results_extend (key_of t) xs m")
    case (Inl e)
    with Inr assms show ?thesis by (simp add: target_eq lists_good_def)
  next
    case m': (Inr m')
    from results_extend_Inr[OF m'] obtain l where l: "results m (key_of t) = Some (RList l)"
      and eq: "m' = m\<lparr>results := (results m)(key_of t \<mapsto> RList (l @ xs))\<rparr>" by blast
    from assms l have "\<forall>x\<in>set l. has_retailer_and_url x" by (simp add: lists_good_def)
    with g assms have "lists_good m'" unfolding eq lists_good_def by auto
    with Inr m' show ?thesis by (simp add: target_eq)
  qed
qed

lemma fold_target_linked_good:
  "lists_good m \<Longrightarrow> lists_good (fold (target (linked w) u q) sched m)"
  by (induction sched arbitrary: m) (simp_all add: target_linked_good)

lemma main_run_lists_good: "lists_good (main_run w sched now dockers_url search_term)"
proof -
  have "lists_good (init\<lparr>results := (results init)(''search_term'' \<mapsto> RStr search_term,
                                           ''timestamp'' \<mapsto> RStr now)\<rparr>)"
    by (auto simp: lists_good_def init_def split: if_splits)
  then show ?thesis
    unfolding main_run_def run_all_scrapers_def by (rule fold_target_linked_good)
qed

text \<open>
  C5. Every record in a list of \<open>results\<close> after a run of the program is a dictionary
  whose \<open>retailer\<close> and \<open>url\<close> are not \<open>None\<close>, whatever the sites answer (a fetched page
  with all, some or no fields found, or an exception at the fetch).
\<close>

theorem main_run_records_have_retailer_and_url:
  "\<forall>key l. results (main_run w sched now dockers_url search_term) key = Some (RList l) \<longrightarrow>
     (\<forall>x\<in>set l. \<exists>r. x = RetailDict r \<and> retailer r \<noteq> None \<and> url r \<noteq> None)"
  using main_run_lists_good [of w sched now dockers_url search_term]
  unfolding lists_good_def
  by (metis has_retailer_and_url.elims(2))

text \<open>
  The result set of a run is populated: the hypothesis of the theorems on
  \<open>get_lowest_price\<close> and \<open>get_price_comparison\<close> holds after every run.
\<close>

lemma main_run_populated: "populated (main_run w sched now dockers_url search_term)"
proof -
  have k: "keys_hold_lists (main_run w sched now dockers_url search_term)"
    unfolding main_run_def by (rule run_keys_hold_lists)
  have g: "lists_good (main_run w sched now dockers_url search_term)"
    by (rule main_run_lists_good)
  show ?thesis
    unfolding populated_def
  proof
    fix key assume "key \<in> set retailer_keys"
    with k obtain l where l: "results (main_run w sched now dockers_url search_term) key = Some (RList l)"
      unfolding keys_hold_lists_def by blast
    with g have "\<forall>x\<in>set l. has_retailer_and_url x" unfolding lists_good_def by blast
    then have "PyNone \<notin> set l" by auto
    with l show "\<exists>l. results (main_run w sched now dockers_url search_term) key = Some (RList l)
                   \<and> PyNone \<notin> set l" by blast
  qed
qed

text \<open>
  In the linked program the Dockers thread always fails: its list stays empty and its one
  error entry is the TypeError of the call.
\<close>

lemma main_run_dockers:
  assumes "is_schedule sched"
  shows "results (main_run w sched now u q) ''dockers'' = Some (RList []) \<and>
         errors_for ''Dockers'' (main_run w sched now u q) =
           [(''Dockers'', ''scrape_product() takes 0 positional arguments but 1 was given'')]"
  using run_effect[OF assms, of DockersScraper "linked w" u q now]
  by (simp add: effect_def main_run_def linked_def call_no_parameters_def)

section \<open>Detail fetches of the search adapters\<close>

lemma amazon_links_length: "length (amazon_links cs acc) \<le> length acc + length cs"
  by (induction cs acc rule: amazon_links.induct) auto

lemma amazon_detail_fetches_bound: "length (amazon_detail_fetches pg) \<le> 3"
  by (simp add: amazon_detail_fetches_def)

lemma card_links_distinct: "distinct acc \<Longrightarrow> distinct (card_links base ls acc)"
  by (induction base ls acc rule: card_links.induct) (auto simp: set_add_def)

lemma card_detail_fetches_distinct:
  assumes "\<And>l. mset (iter l) = mset l"
  shows "distinct (card_detail_fetches iter base pg) \<and>
         length (card_detail_fetches iter base pg) \<le> 3"
proof -
  have "\<And>l. distinct l \<Longrightarrow> distinct (take 3 (iter l))"
    using assms by (metis distinct_take mset_eq_imp_distinct_iff)
  then show ?thesis
    by (simp add: card_detail_fetches_def Let_def card_links_distinct)
qed

text \<open>
  C8 fails for Amazon: on a search page that lists one link twice,
  \<open>search_amazon_dockers\<close> fetches the same URL twice. (The two lemmas before show what
  holds: at most 3 fetches for Amazon, and distinct URLs, at most 3, for JCPenney and
  Macy's.)
\<close>

theorem amazon_fetches_same_url_twice:
  "amazon_detail_fetches twin_page =
     [''https://www.amazon.com/dp/B01'', ''https://www.amazon.com/dp/B01''] \<and>
   \<not> distinct (amazon_detail_fetches twin_page)"
  by (simp add: amazon_detail_fetches_def twin_page_def)

section \<open>The run's theorems at the examples\<close>

theorem run_all_scrapers_isolates_failures_witness:
  "is_schedule [MacysScraper, JCPenneyScraper, AmazonScraper, DockersScraper] \<and>
   results (run_all_scrapers stub_adapters [MacysScraper, JCPenneyScraper, AmazonScraper, DockersScraper]
              ''now'' ''u'' ''q'' init) ''amazon''
     = Some (RList [listing ''Amazon'' ''a1'' (Some 30), listing ''Amazon'' ''a2'' (Some 10)]) \<and>
   results (run_all_scrapers stub_adapters [MacysScraper, JCPenneyScraper, AmazonScraper, DockersScraper]
              ''now'' ''u'' ''q'' init) ''jcpenney'' = Some (RList []) \<and>
   errors_for ''JCPenney'' (run_all_scrapers stub_adapters
              [MacysScraper, JCPenneyScraper, AmazonScraper, DockersScraper] ''now'' ''u'' ''q'' init)
     = [(''JCPenney'', ''boom'')]"
proof -
  have s: "is_schedule [MacysScraper, JCPenneyScraper, AmazonScraper, DockersScraper]"
    by (auto simp: is_schedule_def)
  show ?thesis
    using run_all_scrapers_isolates_failures [OF s, where A = stub_adapters
        and dockers_url = "''u''" and now = "''now''" and search_term = "''q''"] s
    by (simp add: stub_adapters_def)
qed

theorem run_all_scrapers_keeps_keys_witness:
  "results free_run ''dockers'' = Some (RList []) \<and>
   results free_run ''amazon'' = Some (RList [free_item]) \<and>
   results free_run ''jcpenney'' = Some (RList []) \<and>
   results free_run ''macys'' = Some (RList [])"
  using run_all_scrapers_keeps_keys [where A = "linked free_world"
      and sched = "[DockersScraper, AmazonScraper, JCPenneyScraper, MacysScraper]"
      and now = "''2026-01-01T00:00:00''"
      and dockers_url = "''https://us.dockers.com/products/khakis''"
      and search_term = "''Dockers Khakis''"]
    free_run_results
  by simp

theorem main_run_records_have_retailer_and_url_witness:
  "results free_run ''amazon'' = Some (RList [free_item]) \<and>
   has_retailer_and_url free_item"
  using main_run_records_have_retailer_and_url [where w = free_world
      and sched = "[DockersScraper, AmazonScraper, JCPenneyScraper, MacysScraper]"
      and now = "''2026-01-01T00:00:00''"
      and dockers_url = "''https://us.dockers.com/products/khakis''"
      and search_term = "''Dockers Khakis''"]
    free_run_results
  by (simp add: free_item_def)

end
